theory Spec2Isabelle
  imports Complex_Main
begin

section \<open>JavaScript values\<close>

text \<open>
  A JavaScript string is a sequence of UTF-16 code units. Literals of the source that are
  not ASCII are written out as their code units; ASCII literals go through \<open>ascii\<close>.
\<close>

type_synonym jstring = "nat list"

definition ascii :: "string \<Rightarrow> jstring" where
  "ascii s = map of_char s"

text \<open>
  \<open>String.prototype.toLowerCase\<close>, on the code units \<open>A\<close> to \<open>Z\<close>. Unicode lower-casing
  of any other code unit never yields one of the units of \<open>.dwg\<close>, so the suffix test of
  \<open>onSubmit\<close>, the only use of the function, is decided by this mapping.
\<close>

definition toLowerCase :: "jstring \<Rightarrow> jstring" where
  "toLowerCase s = map (\<lambda>c. if 65 \<le> c \<and> c \<le> 90 then c + 32 else c) s"

definition endsWith :: "jstring \<Rightarrow> jstring \<Rightarrow> bool" where
  "endsWith s t = (length t \<le> length s \<and> drop (length s - length t) s = t)"

text \<open>Decimal rendering of a natural number, as a template literal renders it.\<close>

fun decimal :: "nat \<Rightarrow> jstring" where
  "decimal n = (if n < 10 then [48 + n] else decimal (n div 10) @ [48 + n mod 10])"

declare decimal.simps [simp del]

text \<open>\<open>a || b\<close> on an optional string: the empty string and \<open>undefined\<close> are falsy.\<close>

definition or_else :: "jstring option \<Rightarrow> jstring \<Rightarrow> jstring" where
  "or_else a b = (case a of None \<Rightarrow> b | Some s \<Rightarrow> if s = [] then b else s)"

text \<open>An IEEE double as the bounding-box validation sees it.\<close>

datatype jsnum = Num real | NaN | PosInf | NegInf

section \<open>types.ts\<close>

text \<open>
  \<open>ConvertResult\<close>. The optional \<open>progress\<close> field is \<open>res_progress\<close> here (the component
  state has a \<open>progress\<close> of its own); it is a JSON number. Optional fields are options.
\<close>

record ConvertResult =
  job_id :: jstring
  status :: jstring
  res_progress :: "real option"
  message :: "jstring option"
  dxf_path :: "jstring option"
  gpkg_path :: "jstring option"
  layer_name :: "jstring option"
  mvt_url :: "jstring option"
  raster_url :: "jstring option"
  wmts_url :: "jstring option"
  bbox :: "jsnum list option"

section \<open>Uploader.vue\<close>

datatype emit = EmitConvert ConvertResult | EmitError jstring

text \<open>
  The refs of the component (\<open>loading\<close> to \<open>xhr\<close>), followed by what the component has
  done to its surroundings: the events emitted to the parent, the \<open>POST /convert\<close>
  requests under way and those aborted (an \<open>XMLHttpRequest\<close> is known by a number),
  the pending \<open>setTimeout(poll, delay)\<close> callbacks with the job id of their closure,
  the polls suspended at \<open>await fetch\<close>, and every \<open>GET /status/{jobId}\<close> issued so far.
  \<open>file\<close> holds the name of the selected file.
\<close>

record uploader =
  loading :: bool
  progress :: real
  progressMsg :: jstring
  "file" :: "jstring option"
  showDetails :: bool
  logs :: "jstring list"
  currentJobId :: "jstring option"
  xhr :: "nat option"
  emitted :: "emit list"
  uploads :: "nat list"
  aborted :: "nat list"
  next_req :: nat
  timers :: "(jstring \<times> nat) list"
  fetching :: "jstring list"
  polled :: "jstring list"

definition init :: uploader where
  "init = \<lparr>loading = False, progress = 0, progressMsg = [], file = None,
    showDetails = False, logs = [], currentJobId = None, xhr = None,
    emitted = [], uploads = [], aborted = [], next_req = 0,
    timers = [], fetching = [], polled = []\<rparr>"

text \<open>The literals of the component, in the order in which the source has them.\<close>

definition msg_cancelled :: jstring where
  "msg_cancelled = [0x5df2, 0x53d6, 0x6d88, 0x4e0a, 0x4f20]"

definition msg_convert_failed :: jstring where
  "msg_convert_failed = [0x8f6c, 0x6362, 0x5931, 0x8d25]"

definition msg_select_dwg :: jstring where
  "msg_select_dwg =
    [0x8bf7, 0x9009, 0x62e9, 0x20, 0x2e, 0x64, 0x77, 0x67, 0x20, 0x6587, 0x4ef6]"

definition msg_uploading :: jstring where
  "msg_uploading = [0x6b63, 0x5728, 0x4e0a, 0x4f20, 0x2e, 0x2e, 0x2e]"

definition msg_upload_started :: jstring where
  "msg_upload_started = [0x5f00, 0x59cb, 0x4e0a, 0x4f20, 0x2e, 0x2e, 0x2e]"

definition msg_upload_done :: jstring where
  "msg_upload_done =
    [0x4e0a, 0x4f20, 0x5b8c, 0x6210, 0xff0c, 0x7b49, 0x5f85, 0x5904, 0x7406, 0x2e, 0x2e, 0x2e]"

definition msg_preparing :: jstring where
  "msg_preparing = [0x51c6, 0x5907, 0x8f6c, 0x6362, 0x2e, 0x2e, 0x2e]"

definition msg_parse_failed :: jstring where
  "msg_parse_failed = [0x54cd, 0x5e94, 0x89e3, 0x6790, 0x5931, 0x8d25]"

definition msg_request_failed :: jstring where
  "msg_request_failed = [0x8bf7, 0x6c42, 0x5931, 0x8d25, 0x20]"

definition msg_network_error :: jstring where
  "msg_network_error = [0x7f51, 0x7edc, 0x9519, 0x8bef]"

definition msg_unknown_error :: jstring where
  "msg_unknown_error = [0x672a, 0x77e5, 0x9519, 0x8bef]"

definition emit_error :: "jstring \<Rightarrow> uploader \<Rightarrow> uploader" where
  "emit_error msg st = st\<lparr>emitted := emitted st @ [EmitError msg]\<rparr>"

definition emit_convert :: "ConvertResult \<Rightarrow> uploader \<Rightarrow> uploader" where
  "emit_convert res st = st\<lparr>emitted := emitted st @ [EmitConvert res]\<rparr>"

definition onFileChange :: "jstring option \<Rightarrow> uploader \<Rightarrow> uploader" where
  "onFileChange f st = st\<lparr>file := f\<rparr>"

text \<open>
  \<open>addLog\<close>. Of an empty array \<open>logs.value[logs.value.length - 1]\<close> is \<open>undefined\<close>, which
  differs from every string.
\<close>

definition addLog :: "jstring \<Rightarrow> uploader \<Rightarrow> uploader" where
  "addLog msg st =
    (if msg = [] then st
     else if logs st = [] \<or> last (logs st) \<noteq> msg then st\<lparr>logs := logs st @ [msg]\<rparr>
     else st)"

text \<open>
  \<open>cancelUpload\<close>. \<open>abort()\<close> ends the request: none of its \<open>load\<close> or \<open>error\<close> handlers
  runs afterwards, and its \<open>abort\<close> handler only clears \<open>xhr\<close>, as the function itself does.
\<close>

definition cancelUpload :: "uploader \<Rightarrow> uploader" where
  "cancelUpload st =
    (let st1 = (case xhr st of
                  Some x \<Rightarrow> st\<lparr>uploads := removeAll x (uploads st),
                               aborted := aborted st @ [x], xhr := None\<rparr>
                | None \<Rightarrow> st)
     in emit_error msg_cancelled (st1\<lparr>loading := False, currentJobId := None, logs := []\<rparr>))"

text \<open>
  The inner \<open>poll\<close> of \<open>pollStatus\<close> runs in two parts. \<open>poll\<close> is the part up to
  \<open>await fetch\<close>: it returns at once, or issues \<open>GET /status/{jobId}\<close> and suspends.
\<close>

definition poll :: "jstring \<Rightarrow> uploader \<Rightarrow> uploader" where
  "poll jobId st =
    (if \<not> loading st \<or> currentJobId st \<noteq> Some jobId then st
     else st\<lparr>fetching := fetching st @ [jobId], polled := polled st @ [jobId]\<rparr>)"

text \<open>
  What the request comes back with: \<open>fetch\<close> rejects, the response is not \<open>ok\<close>,
  \<open>r.json()\<close> rejects, or the body is a \<open>ConvertResult\<close>.
\<close>

datatype poll_outcome = FetchFailed | NotOk | JsonFailed | Body ConvertResult

definition setTimeout_poll :: "jstring \<Rightarrow> nat \<Rightarrow> uploader \<Rightarrow> uploader" where
  "setTimeout_poll jobId delay st = st\<lparr>timers := timers st @ [(jobId, delay)]\<rparr>"

text \<open>
  \<open>poll_resume\<close> is the rest of \<open>poll\<close>, run on the state the component has when the
  request comes back. No state is read between the two awaits of the source, so they are one
  step. \<open>res.progress || 0\<close> is 0 for an absent field.
\<close>

definition poll_resume :: "jstring \<Rightarrow> poll_outcome \<Rightarrow> uploader \<Rightarrow> uploader" where
  "poll_resume jobId out st =
    (case out of
       NotOk \<Rightarrow> if loading st then setTimeout_poll jobId 2000 st else st
     | Body res \<Rightarrow>
         (let st1 = st\<lparr>progress := (case res_progress res of None \<Rightarrow> 0 | Some p \<Rightarrow> p),
                        progressMsg := or_else (message res) []\<rparr>;
              st2 = addLog (or_else (message res) []) st1
          in if status res = ascii ''done'' then emit_convert res (st2\<lparr>loading := False\<rparr>)
             else if status res = ascii ''error''
               then emit_error (or_else (message res) msg_convert_failed) (st2\<lparr>loading := False\<rparr>)
             else setTimeout_poll jobId 1000 st2)
     | _ \<Rightarrow> if loading st then setTimeout_poll jobId 2000 st else st)"

definition pollStatus :: "jstring \<Rightarrow> uploader \<Rightarrow> uploader" where
  "pollStatus jobId st = (if \<not> loading st then st else poll jobId st)"

text \<open>
  \<open>req.upload.onprogress\<close>. \<open>percent\<close> is the value of
  \<open>Math.round((e.loaded / e.total) * 100)\<close>, computed by the browser in double arithmetic
  from the event; it is 100 when \<open>e.loaded = e.total > 0\<close>.
\<close>

definition onprogress :: "bool \<Rightarrow> nat \<Rightarrow> uploader \<Rightarrow> uploader" where
  "onprogress lengthComputable percent st =
    (if lengthComputable
     then st\<lparr>progress := real percent,
             progressMsg := msg_uploading @ [0x20] @ decimal percent @ [0x25]\<rparr>
     else st)"

text \<open>
  The response to \<open>POST /convert\<close>: its status code, \<open>JSON.parse(req.responseText)\<close> read as
  a \<open>ConvertResult\<close> (\<open>None\<close> when that throws), and, for the branch of a failed request,
  the value of \<open>err.detail?.msg || err.detail || err.message\<close> when the body parses and that
  value is truthy.
\<close>

record upload_response =
  http_status :: nat
  parsed :: "ConvertResult option"
  failure_detail :: "jstring option"

definition onload :: "upload_response \<Rightarrow> uploader \<Rightarrow> uploader" where
  "onload resp st =
    (let st0 = st\<lparr>xhr := None\<rparr>
     in if 200 \<le> http_status resp \<and> http_status resp < 300 then
          (case parsed resp of
             None \<Rightarrow> emit_error msg_parse_failed (st0\<lparr>loading := False\<rparr>)
           | Some res \<Rightarrow>
               if status res = ascii ''error''
               then emit_error (or_else (message res) msg_convert_failed) (st0\<lparr>loading := False\<rparr>)
               else pollStatus (job_id res)
                      ((addLog msg_upload_done st0)
                         \<lparr>progress := 0, progressMsg := msg_preparing,
                          currentJobId := Some (job_id res)\<rparr>))
        else emit_error
               (case failure_detail resp of
                  Some m \<Rightarrow> m
                | None \<Rightarrow> msg_request_failed @ decimal (http_status resp))
               (st0\<lparr>loading := False\<rparr>))"

definition onerror :: "uploader \<Rightarrow> uploader" where
  "onerror st = emit_error msg_network_error (st\<lparr>xhr := None, loading := False\<rparr>)"

text \<open>
  \<open>onSubmit\<close>. The argument says whether \<open>req.open\<close> or \<open>req.send\<close> throws, and what: an
  \<open>Error\<close> with its message, or another value. Otherwise the request is sent.
\<close>

datatype thrown = ErrorObject jstring | OtherValue

definition onSubmit :: "thrown option \<Rightarrow> uploader \<Rightarrow> uploader" where
  "onSubmit thr st =
    (if (case file st of
           None \<Rightarrow> True
         | Some name \<Rightarrow> \<not> endsWith (toLowerCase name) (ascii ''.dwg''))
     then emit_error msg_select_dwg st
     else
       (let st1 = emit_error []
                    (st\<lparr>loading := True, progress := 0, progressMsg := msg_uploading,
                        logs := [msg_upload_started], showDetails := False\<rparr>);
            st2 = st1\<lparr>xhr := Some (next_req st1), next_req := Suc (next_req st1)\<rparr>
        in case thr of
             None \<Rightarrow> st2\<lparr>uploads := uploads st2 @ [next_req st1]\<rparr>
           | Some (ErrorObject m) \<Rightarrow> emit_error m (st2\<lparr>loading := False\<rparr>)
           | Some OtherValue \<Rightarrow> emit_error msg_unknown_error (st2\<lparr>loading := False\<rparr>)))"

section \<open>The component as an event system\<close>

text \<open>
  One event is one callback that the browser runs to completion. A handler of a request runs
  only while that request is under way, a timer fires only while it is pending, and a poll
  resumes only while it is suspended; an event that cannot happen leaves the state as it is.
\<close>

datatype event =
    FileChange "jstring option"
  | Submit "thrown option"
  | UploadProgress nat bool nat
  | UploadLoad nat upload_response
  | UploadError nat
  | Cancel
  | ToggleDetails
  | Timer jstring nat
  | PollResult jstring poll_outcome

fun step :: "uploader \<Rightarrow> event \<Rightarrow> uploader" where
  "step st (FileChange f) = onFileChange f st"
| "step st (Submit thr) = onSubmit thr st"
| "step st (UploadProgress r lc percent) =
     (if r \<in> set (uploads st) then onprogress lc percent st else st)"
| "step st (UploadLoad r resp) =
     (if r \<in> set (uploads st)
      then onload resp (st\<lparr>uploads := removeAll r (uploads st)\<rparr>) else st)"
| "step st (UploadError r) =
     (if r \<in> set (uploads st)
      then onerror (st\<lparr>uploads := removeAll r (uploads st)\<rparr>) else st)"
| "step st Cancel = cancelUpload st"
| "step st ToggleDetails = st\<lparr>showDetails := \<not> showDetails st\<rparr>"
| "step st (Timer jobId delay) =
     (if (jobId, delay) \<in> set (timers st)
      then poll jobId (st\<lparr>timers := remove1 (jobId, delay) (timers st)\<rparr>) else st)"
| "step st (PollResult jobId out) =
     (if jobId \<in> set (fetching st)
      then poll_resume jobId out (st\<lparr>fetching := remove1 jobId (fetching st)\<rparr>) else st)"

definition run :: "uploader \<Rightarrow> event list \<Rightarrow> uploader" where
  "run st es = foldl step st es"

text \<open>
  What a run shows and asks for: the progress displayed after each event, the progress of
  the status bodies that arrive in a run (\<open>res.progress || 0\<close>), the events of the polling
  phase, and the job ids that the upload responses of a run carry.
\<close>

fun displayed :: "uploader \<Rightarrow> event list \<Rightarrow> real list" where
  "displayed st [] = []"
| "displayed st (e # es) = progress (step st e) # displayed (step st e) es"

fun reported :: "event list \<Rightarrow> real list" where
  "reported [] = []"
| "reported (PollResult j (Body res) # es) =
     (case res_progress res of None \<Rightarrow> 0 | Some p \<Rightarrow> p) # reported es"
| "reported (e # es) = reported es"

fun is_poll_event :: "event \<Rightarrow> bool" where
  "is_poll_event (Timer j d) = True"
| "is_poll_event (PollResult j out) = True"
| "is_poll_event e = False"

fun load_ids :: "event list \<Rightarrow> jstring list" where
  "load_ids [] = []"
| "load_ids (UploadLoad r resp # es) =
     (case parsed resp of Some res \<Rightarrow> job_id res # load_ids es | None \<Rightarrow> load_ids es)"
| "load_ids (e # es) = load_ids es"

text \<open>
  Sample data: a body \<open>{job_id, status, progress, message}\<close> as the status endpoint sends
  it, the component with an upload under way, and the component polling job \<open>j1\<close>.
\<close>

definition status_body ::
  "jstring \<Rightarrow> jstring \<Rightarrow> real option \<Rightarrow> jstring option \<Rightarrow> ConvertResult" where
  "status_body j s p m = \<lparr>job_id = j, status = s, res_progress = p, message = m,
     dxf_path = None, gpkg_path = None, layer_name = None, mvt_url = None,
     raster_url = None, wmts_url = None, bbox = None\<rparr>"

definition accepted :: "ConvertResult \<Rightarrow> upload_response" where
  "accepted res = \<lparr>http_status = 200, parsed = Some res, failure_detail = None\<rparr>"

definition uploading :: uploader where
  "uploading = run init [FileChange (Some (ascii ''a.dwg'')), Submit None]"

definition polling :: uploader where
  "polling = step uploading
     (UploadLoad 0 (accepted (status_body (ascii ''j1'') (ascii ''queued'') (Some 0) None)))"

section \<open>Map.vue\<close>

text \<open>
  A value as \<open>res.json()\<close> gives it, and \<open>undefined\<close>. An object is the list of its own
  properties.
\<close>

datatype jsval =
    Undefined
  | JNull
  | JBool bool
  | JNumber jsnum
  | JString jstring
  | JArray "jsval list"
  | JObject "(jstring \<times> jsval) list"

text \<open>
  The MapLibre map, as far as the component drives it: the layers it has added, each with
  its filter, the source \<open>dwg-source\<close>, and the calls of \<open>fitBounds\<close> with their bounds.
\<close>

datatype layer_id = LayerLine | LayerFill | LayerText | LayerRaster

datatype filter_spec =
    Polygons
  | LinesAndPolygons
  | HasText
  | NoFilter
  | InLayers "jsval list"
  | HasTextInLayers "jsval list"

datatype tile_source = RasterTiles jstring | VectorTiles jstring

record maplibre =
  style_layers :: "(layer_id \<times> filter_spec) list"
  style_source :: "tile_source option"
  fitted :: "jsnum list list"

datatype map_mode = Vector | Raster

text \<open>
  The component: its prop \<open>result\<close>, its refs, and \<open>window.location.origin\<close>. \<open>mapv\<close> is the
  ref \<open>map\<close>. \<open>selectedLayers\<close> is a JavaScript \<open>Set\<close>: its elements without repetition, in
  the order of insertion. A \<open>Set\<close> compares by \<open>SameValueZero\<close>; on strings, which is what
  layer names are, that is equality.
\<close>

record map_view =
  result :: "ConvertResult option"
  mapv :: "maplibre option"
  layers :: "jsval list"
  selectedLayers :: "jsval list"
  mapMode :: map_mode
  origin :: jstring

definition set_add :: "jsval \<Rightarrow> jsval list \<Rightarrow> jsval list" where
  "set_add x s = (if x \<in> set s then s else s @ [x])"

definition set_delete :: "jsval \<Rightarrow> jsval list \<Rightarrow> jsval list" where
  "set_delete x s = removeAll x s"

definition new_Set :: "jsval list \<Rightarrow> jsval list" where
  "new_Set xs = foldl (\<lambda>s x. set_add x s) [] xs"

definition getLayer :: "layer_id \<Rightarrow> maplibre \<Rightarrow> bool" where
  "getLayer i m = (i \<in> fst ` set (style_layers m))"

definition removeLayer :: "layer_id \<Rightarrow> maplibre \<Rightarrow> maplibre" where
  "removeLayer i m = m\<lparr>style_layers := filter (\<lambda>l. fst l \<noteq> i) (style_layers m)\<rparr>"

definition addLayer :: "layer_id \<Rightarrow> filter_spec \<Rightarrow> maplibre \<Rightarrow> maplibre" where
  "addLayer i f m = m\<lparr>style_layers := style_layers m @ [(i, f)]\<rparr>"

definition setFilter :: "layer_id \<Rightarrow> filter_spec \<Rightarrow> maplibre \<Rightarrow> maplibre" where
  "setFilter i f m =
    m\<lparr>style_layers := map (\<lambda>l. if fst l = i then (i, f) else l) (style_layers m)\<rparr>"

definition fitBounds :: "jsnum list \<Rightarrow> maplibre \<Rightarrow> maplibre" where
  "fitBounds b m = m\<lparr>fitted := fitted m @ [b]\<rparr>"

text \<open>Reading an index of an array: \<open>undefined\<close>, here \<open>None\<close>, beyond its end.\<close>

definition item :: "'a list \<Rightarrow> nat \<Rightarrow> 'a option" where
  "item xs i = (if i < length xs then Some (xs ! i) else None)"

text \<open>
  \<open>isValid\<close> and \<open>isValidLat\<close>, the same in \<open>resetView\<close> and in the watcher.
  \<open>Number.isFinite\<close> is false of \<open>undefined\<close>, \<open>NaN\<close> and the infinities, and every
  comparison with \<open>undefined\<close> or \<open>NaN\<close> is false. The doubles \<open>1e20\<close>, \<open>-90\<close> and \<open>90\<close> are
  these numbers exactly.
\<close>

definition isValid :: "jsnum option \<Rightarrow> bool" where
  "isValid n = (case n of Some (Num x) \<Rightarrow> \<bar>x\<bar> < 10 ^ 20 | _ \<Rightarrow> False)"

definition isValidLat :: "jsnum option \<Rightarrow> bool" where
  "isValidLat n =
    (case n of Some (Num x) \<Rightarrow> - 90 \<le> x \<and> x \<le> 90 | _ \<Rightarrow> False)"

text \<open>The condition of both \<open>if\<close>s, on \<open>const [minX, minY, maxX, maxY] = bbox\<close>.\<close>

definition valid_bounds :: "jsnum list \<Rightarrow> bool" where
  "valid_bounds b =
    (let minX = item b 0; minY = item b 1; maxX = item b 2; maxY = item b 3
     in isValid minX \<and> isValid minY \<and> isValid maxX \<and> isValid maxY
        \<and> isValidLat minY \<and> isValidLat maxY)"

text \<open>
  \<open>resetView\<close>. A missing or \<open>null\<close> \<open>bbox\<close> is \<open>None\<close>. An exception of \<open>fitBounds\<close> is
  caught and logged; the call has been made by then.
\<close>

definition resetView :: "map_view \<Rightarrow> map_view" where
  "resetView st =
    (case mapv st of
       None \<Rightarrow> st
     | Some m \<Rightarrow>
         (case result st of
            None \<Rightarrow> st
          | Some res \<Rightarrow>
              (case bbox res of
                 None \<Rightarrow> st
               | Some b \<Rightarrow> if valid_bounds b then st\<lparr>mapv := Some (fitBounds b m)\<rparr> else st)))"

definition updateMapFilters :: "map_view \<Rightarrow> map_view" where
  "updateMapFilters st =
    (case mapv st of
       None \<Rightarrow> st
     | Some m \<Rightarrow>
         (let layerFilter = InLayers (selectedLayers st);
              m1 = foldl (\<lambda>m i. if getLayer i m then setFilter i layerFilter m else m) m
                     [LayerFill, LayerLine];
              m2 = (if getLayer LayerText m1
                    then setFilter LayerText (HasTextInLayers (selectedLayers st)) m1 else m1)
          in st\<lparr>mapv := Some m2\<rparr>))"

definition toggleLayer :: "jsval \<Rightarrow> map_view \<Rightarrow> map_view" where
  "toggleLayer layerName st =
    updateMapFilters
      (if layerName \<in> set (selectedLayers st)
       then st\<lparr>selectedLayers := set_delete layerName (selectedLayers st)\<rparr>
       else st\<lparr>selectedLayers := set_add layerName (selectedLayers st)\<rparr>)"

text \<open>
  \<open>l.name\<close>: a \<open>TypeError\<close>, here \<open>None\<close>, of \<open>null\<close> and \<open>undefined\<close>; the property of an
  object that has it; \<open>undefined\<close> of everything else.
\<close>

definition prop_name :: "jsval \<Rightarrow> jsval option" where
  "prop_name l =
    (case l of
       Undefined \<Rightarrow> None
     | JNull \<Rightarrow> None
     | JObject kvs \<Rightarrow> (case map_of kvs (ascii ''name'') of Some v \<Rightarrow> Some v | None \<Rightarrow> Some Undefined)
     | _ \<Rightarrow> Some Undefined)"

fun names_of :: "jsval list \<Rightarrow> jsval list option" where
  "names_of [] = Some []"
| "names_of (l # ls) =
     (case prop_name l of
        None \<Rightarrow> None
      | Some n \<Rightarrow> (case names_of ls of None \<Rightarrow> None | Some ns \<Rightarrow> Some (n # ns)))"

text \<open>\<open>toggleAllLayers\<close>; an exception leaves the handler before anything is assigned.\<close>

definition toggleAllLayers :: "bool \<Rightarrow> map_view \<Rightarrow> map_view" where
  "toggleAllLayers checked st =
    (if checked
     then (case names_of (layers st) of
             None \<Rightarrow> st
           | Some ns \<Rightarrow> updateMapFilters (st\<lparr>selectedLayers := new_Set ns\<rparr>))
     else updateMapFilters (st\<lparr>selectedLayers := []\<rparr>))"

definition absolute_url :: "jstring \<Rightarrow> jstring \<Rightarrow> jstring" where
  "absolute_url org url = (if take 1 url = ascii ''/'' then org @ url else url)"

text \<open>\<open>renderMapLayers\<close>. An absent or empty url is falsy.\<close>

definition renderMapLayers :: "map_view \<Rightarrow> map_view" where
  "renderMapLayers st =
    (case mapv st of
       None \<Rightarrow> st
     | Some m \<Rightarrow>
         (case result st of
            None \<Rightarrow> st
          | Some res \<Rightarrow>
              (let m1 = foldl (\<lambda>m i. if getLayer i m then removeLayer i m else m) m
                          [LayerLine, LayerFill, LayerText, LayerRaster];
                   m2 = m1\<lparr>style_source := None\<rparr>
               in if mapMode st = Raster then
                    (if or_else (raster_url res) [] = [] then st\<lparr>mapv := Some m2\<rparr>
                     else st\<lparr>mapv := Some (addLayer LayerRaster NoFilter
                            (m2\<lparr>style_source :=
                                  Some (RasterTiles (absolute_url (origin st)
                                          (or_else (raster_url res) [])))\<rparr>))\<rparr>)
                  else if or_else (mvt_url res) [] = [] then st\<lparr>mapv := Some m2\<rparr>
                  else updateMapFilters
                         (st\<lparr>mapv := Some (addLayer LayerText HasText
                                 (addLayer LayerLine LinesAndPolygons
                                   (addLayer LayerFill Polygons
                                     (m2\<lparr>style_source :=
                                           Some (VectorTiles (absolute_url (origin st)
                                                   (or_else (mvt_url res) [])))\<rparr>))))\<rparr>))))"

definition toggleMode :: "map_view \<Rightarrow> map_view" where
  "toggleMode st =
    renderMapLayers (st\<lparr>mapMode := (if mapMode st = Vector then Raster else Vector)\<rparr>)"

text \<open>
  The watcher of \<open>props.result\<close>. What \<open>GET /layers/{job_id}\<close> comes back with: \<open>fetch\<close>
  rejects, the response is not \<open>ok\<close>, \<open>res.json()\<close> rejects, or the body is an array, as it
  is in both shapes of the endpoint. \<open>store_layers\<close> is the body of \<open>if (res.ok)\<close>: a
  \<open>TypeError\<close> of \<open>l.name\<close> is caught after \<open>layers\<close> has been assigned.
\<close>

datatype layers_response =
    LayersFetchFailed
  | LayersNotOk
  | LayersJsonFailed
  | LayersBody "jsval list"

definition is_string :: "jsval \<Rightarrow> bool" where
  "is_string v = (case v of JString s \<Rightarrow> True | _ \<Rightarrow> False)"

definition default_color :: jstring where
  "default_color = ascii ''#9ca3af''"

definition store_layers :: "jsval list \<Rightarrow> map_view \<Rightarrow> map_view" where
  "store_layers data st =
    (let st1 = (if data \<noteq> [] \<and> is_string (hd data)
                then st\<lparr>layers := map (\<lambda>l. JObject [(ascii ''name'', l),
                                           (ascii ''color'', JString default_color)]) data\<rparr>
                else st\<lparr>layers := data\<rparr>)
     in case names_of (layers st1) of
          None \<Rightarrow> st1
        | Some ns \<Rightarrow> st1\<lparr>selectedLayers := new_Set ns\<rparr>)"

definition fetch_layers :: "layers_response \<Rightarrow> map_view \<Rightarrow> map_view" where
  "fetch_layers resp st = (case resp of LayersBody data \<Rightarrow> store_layers data st | _ \<Rightarrow> st)"

text \<open>
  The end of the watcher. Were the map gone by now, \<open>map.value.fitBounds\<close> would throw
  inside the \<open>try\<close> and nothing would be fitted.
\<close>

definition fit_result :: "ConvertResult \<Rightarrow> map_view \<Rightarrow> map_view" where
  "fit_result newVal st =
    (case bbox newVal of
       None \<Rightarrow> st
     | Some b \<Rightarrow>
         if valid_bounds b
         then (case mapv st of None \<Rightarrow> st | Some m \<Rightarrow> st\<lparr>mapv := Some (fitBounds b m)\<rparr>)
         else st)"

text \<open>
  \<open>watch_resume\<close> is the watcher from the point where \<open>await fetch\<close> returns, on the state
  of that moment; \<open>watch_result\<close> is the whole callback with nothing in between. An empty
  \<open>job_id\<close> is falsy.
\<close>

definition watch_resume :: "ConvertResult \<Rightarrow> layers_response \<Rightarrow> map_view \<Rightarrow> map_view" where
  "watch_resume newVal resp st = fit_result newVal (renderMapLayers (fetch_layers resp st))"

definition watch_result ::
  "ConvertResult option \<Rightarrow> layers_response \<Rightarrow> map_view \<Rightarrow> map_view" where
  "watch_result newVal resp st =
    (case mapv st of
       None \<Rightarrow> st
     | Some m \<Rightarrow>
         (case newVal of
            None \<Rightarrow> st
          | Some nv \<Rightarrow>
              if job_id nv \<noteq> [] then watch_resume nv resp st
              else fit_result nv (renderMapLayers st)))"

text \<open>The calls of \<open>fitBounds\<close> made so far.\<close>

definition fit_calls :: "map_view \<Rightarrow> jsnum list list" where
  "fit_calls st = (case mapv st of None \<Rightarrow> [] | Some m \<Rightarrow> fitted m)"

text \<open>
  Sample data: the mounted component that has been given a result with the bounds \<open>b\<close>, and
  a layer descriptor \<open>{name, color}\<close>.
\<close>

definition mounted :: "jsnum list \<Rightarrow> map_view" where
  "mounted b =
    \<lparr>result = Some ((status_body (ascii ''j1'') (ascii ''done'') (Some 100) None)
                      \<lparr>bbox := Some b\<rparr>),
     mapv = Some \<lparr>style_layers = [], style_source = None, fitted = []\<rparr>,
     layers = [], selectedLayers = [], mapMode = Vector, origin = ascii ''http://h''\<rparr>"

definition descriptor :: "jstring \<Rightarrow> jstring \<Rightarrow> jsval" where
  "descriptor n c = JObject [(ascii ''name'', JString n), (ascii ''color'', JString c)]"

text \<open>
  A layer descriptor as the endpoint documents it: an object whose \<open>name\<close> and \<open>color\<close>
  are strings.
\<close>

definition is_descriptor :: "jsval \<Rightarrow> bool" where
  "is_descriptor v =
    (case v of
       JObject kvs \<Rightarrow>
         (case map_of kvs (ascii ''name'') of
            Some (JString n) \<Rightarrow>
              (case map_of kvs (ascii ''color'') of Some (JString c) \<Rightarrow> True | _ \<Rightarrow> False)
          | _ \<Rightarrow> False)
     | _ \<Rightarrow> False)"

text \<open>
  Sample data: while the request for the status of job \<open>j1\<close> is under way, the user has
  cancelled and submitted again, and the new upload has been answered with job \<open>j2\<close>.
\<close>

definition overtaken :: uploader where
  "overtaken = run polling
     [Cancel, Submit None,
      UploadLoad 1 (accepted (status_body (ascii ''j2'') (ascii ''queued'') (Some 0) None))]"

section \<open>Facts about the handlers\<close>

lemmas handler_defs = onFileChange_def onSubmit_def onprogress_def onload_def onerror_def
  cancelUpload_def poll_def poll_resume_def pollStatus_def setTimeout_poll_def
  emit_error_def emit_convert_def addLog_def

text \<open>
  A request for a status is only ever issued for the job id that \<open>currentJobId\<close> holds, and
  \<open>currentJobId\<close> only ever takes a job id from the response to an upload.
\<close>

lemma step_polled:
  "\<exists>new. polled (step st e) = polled st @ new
     \<and> set new \<subseteq> set_option (currentJobId (step st e))"
  by (cases e)
     (auto simp: handler_defs Let_def split: option.splits poll_outcome.splits thrown.splits)

lemma step_currentJobId:
  "set_option (currentJobId (step st e))
     \<subseteq> set_option (currentJobId st) \<union> set (load_ids [e])"
  by (cases e)
     (auto simp: handler_defs Let_def
           split: option.splits poll_outcome.splits thrown.splits if_splits)

lemma load_ids_Cons: "set (load_ids (e # es)) = set (load_ids [e]) \<union> set (load_ids es)"
  by (cases e) (auto split: option.splits)

lemma run_polled:
  "\<exists>new. polled (run st es) = polled st @ new
     \<and> set new \<subseteq> set_option (currentJobId st) \<union> set (load_ids es)"
proof (induction es arbitrary: st)
  case Nil
  show ?case by (simp add: run_def)
next
  case (Cons e es)
  obtain n1 where n1: "polled (step st e) = polled st @ n1"
      "set n1 \<subseteq> set_option (currentJobId (step st e))"
    using step_polled [of st e] by blast
  obtain n2 where n2: "polled (run (step st e) es) = polled (step st e) @ n2"
      "set n2 \<subseteq> set_option (currentJobId (step st e)) \<union> set (load_ids es)"
    using Cons.IH [of "step st e"] by blast
  have cur: "set_option (currentJobId (step st e))
      \<subseteq> set_option (currentJobId st) \<union> set (load_ids [e])"
    by (rule step_currentJobId)
  have "polled (run st (e # es)) = polled st @ (n1 @ n2)"
    using n1(1) n2(1) by (simp add: run_def)
  moreover have "set (n1 @ n2) \<subseteq> set_option (currentJobId st) \<union> set (load_ids (e # es))"
    using n1(2) n2(2) cur unfolding load_ids_Cons [of e es] by auto
  ultimately show ?case by blast
qed

lemma progress_poll_event:
  "is_poll_event e \<Longrightarrow>
    progress (step st e) = progress st
    \<or> (\<exists>j res. e = PollResult j (Body res)
          \<and> progress (step st e) = (case res_progress res of None \<Rightarrow> 0 | Some p \<Rightarrow> p))"
  by (cases e) (auto simp: handler_defs Let_def split: poll_outcome.splits)

lemma reported_other:
  "is_poll_event e \<Longrightarrow> \<not> (\<exists>j res. e = PollResult j (Body res)) \<Longrightarrow>
    reported (e # es) = reported es"
proof (cases e)
  case (PollResult j out)
  assume "\<not> (\<exists>j res. e = PollResult j (Body res))"
  with PollResult show ?thesis by (cases out) simp_all
qed simp_all

text \<open>The sample states, written out.\<close>

lemma msg_facts:
  "msg_upload_done \<noteq> []" "msg_upload_started \<noteq> msg_upload_done"
  by (simp_all add: msg_upload_done_def msg_upload_started_def)

lemma ascii_facts:
  "ascii ''j1'' \<noteq> ascii ''j2''" "ascii ''j2'' \<noteq> ascii ''j1''"
  "ascii ''queued'' \<noteq> ascii ''error''" "ascii ''queued'' \<noteq> ascii ''done''"
  "ascii ''converting'' \<noteq> ascii ''error''" "ascii ''converting'' \<noteq> ascii ''done''"
  "ascii ''packaging'' \<noteq> ascii ''error''" "ascii ''packaging'' \<noteq> ascii ''done''"
  "ascii ''cancelled'' \<noteq> ascii ''error''" "ascii ''cancelled'' \<noteq> ascii ''done''"
  "ascii ''done'' \<noteq> ascii ''error''" "ascii ''error'' \<noteq> ascii ''done''"
  "endsWith (toLowerCase (ascii ''a.dwg'')) (ascii ''.dwg'')"
  by (simp_all add: ascii_def endsWith_def toLowerCase_def)

lemma uploading_state:
  "uploading = \<lparr>loading = True, progress = 0, progressMsg = msg_uploading,
     file = Some (ascii ''a.dwg''), showDetails = False, logs = [msg_upload_started],
     currentJobId = None, xhr = Some 0, emitted = [EmitError []], uploads = [0],
     aborted = [], next_req = 1, timers = [], fetching = [], polled = []\<rparr>"
  by (simp add: uploading_def run_def init_def onFileChange_def onSubmit_def emit_error_def
        ascii_facts Let_def)

lemma polling_state:
  "polling = \<lparr>loading = True, progress = 0, progressMsg = msg_preparing,
     file = Some (ascii ''a.dwg''), showDetails = False,
     logs = [msg_upload_started, msg_upload_done],
     currentJobId = Some (ascii ''j1''), xhr = None, emitted = [EmitError []], uploads = [],
     aborted = [], next_req = 1, timers = [], fetching = [ascii ''j1''],
     polled = [ascii ''j1'']\<rparr>"
  by (simp add: polling_def uploading_state accepted_def status_body_def onload_def
        pollStatus_def poll_def addLog_def msg_facts ascii_facts Let_def)

lemma cancelled_state:
  "cancelUpload polling = \<lparr>loading = False, progress = 0, progressMsg = msg_preparing,
     file = Some (ascii ''a.dwg''), showDetails = False, logs = [],
     currentJobId = None, xhr = None, emitted = [EmitError [], EmitError msg_cancelled],
     uploads = [], aborted = [], next_req = 1, timers = [], fetching = [ascii ''j1''],
     polled = [ascii ''j1'']\<rparr>"
  by (simp add: polling_state cancelUpload_def emit_error_def)

lemma overtaken_state:
  "overtaken = \<lparr>loading = True, progress = 0, progressMsg = msg_preparing,
     file = Some (ascii ''a.dwg''), showDetails = False,
     logs = [msg_upload_started, msg_upload_done],
     currentJobId = Some (ascii ''j2''), xhr = None,
     emitted = [EmitError [], EmitError msg_cancelled, EmitError []], uploads = [],
     aborted = [], next_req = 2, timers = [], fetching = [ascii ''j1'', ascii ''j2''],
     polled = [ascii ''j1'', ascii ''j2'']\<rparr>"
proof -
  have s3: "step (cancelUpload polling) (Submit None) = \<lparr>loading = True, progress = 0,
     progressMsg = msg_uploading,
     file = Some (ascii ''a.dwg''), showDetails = False, logs = [msg_upload_started],
     currentJobId = None, xhr = Some 1,
     emitted = [EmitError [], EmitError msg_cancelled, EmitError []],
     uploads = [1], aborted = [], next_req = 2, timers = [], fetching = [ascii ''j1''],
     polled = [ascii ''j1'']\<rparr>"
    unfolding cancelled_state by (simp add: onSubmit_def emit_error_def ascii_facts Let_def)
  have s4: "step (step (cancelUpload polling) (Submit None))
      (UploadLoad 1 (accepted (status_body (ascii ''j2'') (ascii ''queued'') (Some 0) None)))
    = \<lparr>loading = True, progress = 0, progressMsg = msg_preparing,
     file = Some (ascii ''a.dwg''), showDetails = False,
     logs = [msg_upload_started, msg_upload_done],
     currentJobId = Some (ascii ''j2''), xhr = None,
     emitted = [EmitError [], EmitError msg_cancelled, EmitError []], uploads = [],
     aborted = [], next_req = 2, timers = [], fetching = [ascii ''j1'', ascii ''j2''],
     polled = [ascii ''j1'', ascii ''j2'']\<rparr>"
    unfolding s3
    by (simp add: accepted_def status_body_def onload_def pollStatus_def poll_def addLog_def
          msg_facts ascii_facts Let_def)
  show ?thesis unfolding overtaken_def run_def using s4 by simp
qed

lemma overtaken_done_state:
  "step overtaken (PollResult (ascii ''j1'')
      (Body (status_body (ascii ''j1'') (ascii ''done'') (Some 100) None)))
   = \<lparr>loading = False, progress = 100, progressMsg = [],
     file = Some (ascii ''a.dwg''), showDetails = False,
     logs = [msg_upload_started, msg_upload_done],
     currentJobId = Some (ascii ''j2''), xhr = None,
     emitted = [EmitError [], EmitError msg_cancelled, EmitError [],
                EmitConvert (status_body (ascii ''j1'') (ascii ''done'') (Some 100) None)],
     uploads = [], aborted = [], next_req = 2, timers = [], fetching = [ascii ''j2''],
     polled = [ascii ''j1'', ascii ''j2'']\<rparr>"
  unfolding overtaken_state
  by (simp add: status_body_def poll_resume_def emit_convert_def addLog_def or_else_def
        ascii_facts Let_def)

lemma progress_other_poll_event:
  "is_poll_event e \<Longrightarrow> \<not> (\<exists>j r. e = PollResult j (Body r) \<and> j \<in> set (fetching st)) \<Longrightarrow>
     progress (step st e) = progress st"
proof (cases e)
  case (PollResult j out)
  assume "\<not> (\<exists>j r. e = PollResult j (Body r) \<and> j \<in> set (fetching st))"
  with PollResult show ?thesis
    by (cases out) (auto simp: poll_resume_def setTimeout_poll_def)
qed (auto simp: poll_def)

lemma progress_body:
  "jobId \<in> set (fetching st) \<Longrightarrow>
     progress (step st (PollResult jobId (Body res)))
       = (case res_progress res of None \<Rightarrow> 0 | Some p \<Rightarrow> p)"
  by (auto simp: handler_defs Let_def)

lemma progress_upload:
  "x \<in> set (uploads st) \<Longrightarrow> progress (step st (UploadProgress x True percent)) = real percent"
  "x \<in> set (uploads st) \<Longrightarrow> 200 \<le> http_status resp \<Longrightarrow> http_status resp < 300 \<Longrightarrow>
     parsed resp = Some res \<Longrightarrow> status res \<noteq> ascii ''error'' \<Longrightarrow>
     progress (step st (UploadLoad x resp)) = 0"
  by (auto simp: handler_defs Let_def)

lemma sorted_displayed:
  "list_all is_poll_event es \<Longrightarrow> sorted (progress st # reported es) \<Longrightarrow>
     sorted (progress st # displayed st es)"
proof (induction es arbitrary: st)
  case Nil
  show ?case by simp
next
  case (Cons e es)
  have pe: "is_poll_event e" and pes: "list_all is_poll_event es"
    using Cons.prems(1) by simp_all
  show ?case
  proof (cases "\<exists>j res. e = PollResult j (Body res)")
    case True
    then obtain j res where e: "e = PollResult j (Body res)" by blast
    define v where "v = (case res_progress res of None \<Rightarrow> 0 | Some p \<Rightarrow> p)"
    have srt: "sorted (progress st # v # reported es)"
      using Cons.prems(2) by (simp add: e v_def)
    have "progress (step st e) = progress st \<or> progress (step st e) = v"
      using progress_poll_event [OF pe, of st] by (auto simp: e v_def)
    then show ?thesis
    proof
      assume same: "progress (step st e) = progress st"
      have "sorted (progress (step st e) # reported es)" using srt same by simp
      from Cons.IH [OF pes this] show ?thesis using same by simp
    next
      assume new: "progress (step st e) = v"
      have "sorted (progress (step st e) # reported es)" using srt new by simp
      from Cons.IH [OF pes this] show ?thesis using new srt by fastforce
    qed
  next
    case False
    have same: "progress (step st e) = progress st"
      using progress_poll_event [OF pe, of st] False by blast
    have "sorted (progress (step st e) # reported es)"
      using Cons.prems(2) reported_other [OF pe False, of es] same by simp
    from Cons.IH [OF pes this] show ?thesis using same by simp
  qed
qed

section \<open>The message log\<close>

lemma addLog_logs:
  "logs (addLog msg st) =
    (if msg = [] \<or> (logs st \<noteq> [] \<and> last (logs st) = msg) then logs st else logs st @ [msg])"
  by (simp add: addLog_def)

lemma distinct_adj_addLog:
  "distinct_adj (logs st) \<Longrightarrow> distinct_adj (logs (addLog msg st))"
  by (auto simp: addLog_logs distinct_adj_append_iff)

lemma distinct_adj_step:
  "distinct_adj (logs st) \<Longrightarrow> distinct_adj (logs (step st e))"
proof (cases e)
  case (UploadLoad r resp)
  assume d: "distinct_adj (logs st)"
  have "logs (onload resp s) = logs s \<or> logs (onload resp s) = logs (addLog msg_upload_done s)"
    for s
    by (auto simp: onload_def pollStatus_def poll_def emit_error_def addLog_def Let_def
          split: option.splits)
  from this [of "st\<lparr>uploads := removeAll r (uploads st)\<rparr>"] d
    distinct_adj_addLog [of "st\<lparr>uploads := removeAll r (uploads st)\<rparr>" msg_upload_done]
  show ?thesis by (auto simp: UploadLoad)
next
  case (PollResult j out)
  assume d: "distinct_adj (logs st)"
  have "logs (poll_resume j out s) = logs s
      \<or> (\<exists>m. logs (poll_resume j out s) = logs (addLog m s))" for s
    by (cases out)
       (auto simp: poll_resume_def setTimeout_poll_def emit_error_def emit_convert_def
          addLog_def Let_def)
  from this [of "st\<lparr>fetching := remove1 j (fetching st)\<rparr>"] d
  show ?thesis
    using distinct_adj_addLog [of "st\<lparr>fetching := remove1 j (fetching st)\<rparr>"]
    by (auto simp: PollResult)
qed (auto simp: onFileChange_def onSubmit_def onprogress_def onerror_def cancelUpload_def
       poll_def emit_error_def Let_def split: option.splits thrown.splits)

lemma distinct_adj_run:
  "distinct_adj (logs st) \<Longrightarrow> distinct_adj (logs (run st es))"
  unfolding run_def by (induction es arbitrary: st) (simp_all add: distinct_adj_step)

text \<open>
  C3. Whatever messages \<open>addLog\<close> is called with, one call after the other, a log without
  two equal neighbours stays so; a call with the message that is the last entry changes
  nothing; and the log of the component, which starts empty and is otherwise only emptied
  or set to one entry, never has two equal neighbours, whatever happens.
\<close>

theorem addLog_no_consecutive_duplicates:
  "(distinct_adj (logs st) \<longrightarrow> distinct_adj (logs (foldl (\<lambda>s m. addLog m s) st msgs)))
   \<and> (logs st \<noteq> [] \<and> last (logs st) = msg \<longrightarrow> addLog msg st = st)
   \<and> distinct_adj (logs (run init es))"
proof (intro conjI)
  show "distinct_adj (logs st) \<longrightarrow> distinct_adj (logs (foldl (\<lambda>s m. addLog m s) st msgs))"
  proof (induction msgs arbitrary: st)
    case Nil
    show ?case by simp
  next
    case (Cons m ms)
    show ?case using Cons.IH [of "addLog m st"] distinct_adj_addLog [of st m] by simp
  qed
next
  show "logs st \<noteq> [] \<and> last (logs st) = msg \<longrightarrow> addLog msg st = st"
    by (simp add: addLog_def)
next
  show "distinct_adj (logs (run init es))"
    by (rule distinct_adj_run) (simp add: init_def)
qed

theorem addLog_no_consecutive_duplicates_witness:
  "distinct_adj (logs (addLog [1] init))
   \<and> distinct_adj (logs (foldl (\<lambda>s m. addLog m s) (addLog [1] init) [[1], [2], [2]]))
   \<and> logs (addLog [1] init) \<noteq> [] \<and> last (logs (addLog [1] init)) = [1]
   \<and> addLog [1] (addLog [1] init) = addLog [1] init"
  using addLog_no_consecutive_duplicates [of "addLog [1] init" "[[1], [2], [2]]" "[1]" "[]"]
  by (simp add: addLog_def init_def)

section \<open>Submitting a file\<close>

text \<open>
  C4. When no file is selected, or the name of the selected file does not end in \<open>.dwg\<close>
  once lower-cased, \<open>onSubmit\<close> only emits the error asking for a \<open>.dwg\<close> file: no request
  is created or sent, \<open>loading\<close> is not set, and nothing else of the state changes, so no
  job comes of the submission.
\<close>

theorem onSubmit_rejects_non_dwg:
  "file st = None
     \<or> (\<exists>name. file st = Some name \<and> \<not> endsWith (toLowerCase name) (ascii ''.dwg''))
   \<Longrightarrow> onSubmit thr st = st\<lparr>emitted := emitted st @ [EmitError msg_select_dwg]\<rparr>
       \<and> uploads (onSubmit thr st) = uploads st
       \<and> xhr (onSubmit thr st) = xhr st
       \<and> loading (onSubmit thr st) = loading st
       \<and> polled (onSubmit thr st) = polled st"
  by (auto simp: onSubmit_def emit_error_def)

theorem onSubmit_rejects_non_dwg_witness:
  "(file (init\<lparr>file := Some (ascii ''plan.DXF'')\<rparr>) = None
     \<or> (\<exists>name. file (init\<lparr>file := Some (ascii ''plan.DXF'')\<rparr>) = Some name
          \<and> \<not> endsWith (toLowerCase name) (ascii ''.dwg'')))
   \<and> emitted (onSubmit None (init\<lparr>file := Some (ascii ''plan.DXF'')\<rparr>))
       = [EmitError msg_select_dwg]
   \<and> uploads (onSubmit None (init\<lparr>file := Some (ascii ''plan.DXF'')\<rparr>)) = []
   \<and> \<not> loading (onSubmit None (init\<lparr>file := Some (ascii ''plan.DXF'')\<rparr>))
   \<and> emitted (onSubmit None init) = [EmitError msg_select_dwg]"
  using onSubmit_rejects_non_dwg [of "init\<lparr>file := Some (ascii ''plan.DXF'')\<rparr>" None]
    onSubmit_rejects_non_dwg [of init None]
  by (simp add: init_def ascii_def endsWith_def toLowerCase_def)

section \<open>The response to the upload\<close>

text \<open>
  C5. A 2xx response to \<open>POST /convert\<close> whose parsed body has status \<open>error\<close> makes the
  component emit the body's message as an error (a fixed text when the body has none) and
  stop loading; it issues no status request, suspends no poll, sets no timer and leaves
  \<open>currentJobId\<close> alone, and unless a later upload response names that job id, no status
  request for it is issued in any continuation. A status request is issued by the handler
  only for a 2xx response with a parsed body whose status is not \<open>error\<close>, and then for the
  \<open>job_id\<close> of that body; while the component is loading, such a response does start the
  polling.
\<close>

theorem onload_error_body_never_polls:
  "(200 \<le> http_status resp \<and> http_status resp < 300 \<and> parsed resp = Some res
      \<and> status res = ascii ''error'' \<longrightarrow>
        emitted (onload resp st)
          = emitted st @ [EmitError (or_else (message res) msg_convert_failed)]
        \<and> \<not> loading (onload resp st)
        \<and> polled (onload resp st) = polled st
        \<and> fetching (onload resp st) = fetching st
        \<and> timers (onload resp st) = timers st
        \<and> currentJobId (onload resp st) = currentJobId st
        \<and> (currentJobId st \<noteq> Some (job_id res) \<and> job_id res \<notin> set (load_ids es) \<longrightarrow>
             (\<exists>new. polled (run (onload resp st) es) = polled st @ new
                 \<and> job_id res \<notin> set new)))
   \<and> (polled (onload resp st) \<noteq> polled st \<longrightarrow>
        200 \<le> http_status resp \<and> http_status resp < 300
        \<and> (\<exists>r. parsed resp = Some r \<and> status r \<noteq> ascii ''error''
               \<and> polled (onload resp st) = polled st @ [job_id r]))
   \<and> (loading st \<and> 200 \<le> http_status resp \<and> http_status resp < 300
      \<and> parsed resp = Some res \<and> status res \<noteq> ascii ''error'' \<longrightarrow>
        polled (onload resp st) = polled st @ [job_id res]
        \<and> fetching (onload resp st) = fetching st @ [job_id res]
        \<and> currentJobId (onload resp st) = Some (job_id res))"
proof -
  have steps: "(200 \<le> http_status resp \<and> http_status resp < 300 \<and> parsed resp = Some res
      \<and> status res = ascii ''error'' \<longrightarrow>
        emitted (onload resp st)
          = emitted st @ [EmitError (or_else (message res) msg_convert_failed)]
        \<and> \<not> loading (onload resp st)
        \<and> polled (onload resp st) = polled st
        \<and> fetching (onload resp st) = fetching st
        \<and> timers (onload resp st) = timers st
        \<and> currentJobId (onload resp st) = currentJobId st)
   \<and> (polled (onload resp st) \<noteq> polled st \<longrightarrow>
        200 \<le> http_status resp \<and> http_status resp < 300
        \<and> (\<exists>r. parsed resp = Some r \<and> status r \<noteq> ascii ''error''
               \<and> polled (onload resp st) = polled st @ [job_id r]))
   \<and> (loading st \<and> 200 \<le> http_status resp \<and> http_status resp < 300
      \<and> parsed resp = Some res \<and> status res \<noteq> ascii ''error'' \<longrightarrow>
        polled (onload resp st) = polled st @ [job_id res]
        \<and> fetching (onload resp st) = fetching st @ [job_id res]
        \<and> currentJobId (onload resp st) = Some (job_id res))"
    by (auto simp: handler_defs Let_def split: option.splits)
  obtain new where new: "polled (run (onload resp st) es) = polled (onload resp st) @ new"
      "set new \<subseteq> set_option (currentJobId (onload resp st)) \<union> set (load_ids es)"
    using run_polled [of "onload resp st" es] by blast
  have later: "200 \<le> http_status resp \<and> http_status resp < 300 \<and> parsed resp = Some res
      \<and> status res = ascii ''error'' \<longrightarrow>
      (currentJobId st \<noteq> Some (job_id res) \<and> job_id res \<notin> set (load_ids es) \<longrightarrow>
         (\<exists>new. polled (run (onload resp st) es) = polled st @ new \<and> job_id res \<notin> set new))"
  proof (intro impI)
    assume h: "200 \<le> http_status resp \<and> http_status resp < 300 \<and> parsed resp = Some res
        \<and> status res = ascii ''error''"
      and fresh: "currentJobId st \<noteq> Some (job_id res) \<and> job_id res \<notin> set (load_ids es)"
    from h steps have same: "polled (onload resp st) = polled st"
        "currentJobId (onload resp st) = currentJobId st"
      by blast+
    have "job_id res \<notin> set new"
      using new(2) fresh same(2) by (cases "currentJobId st") auto
    then show "\<exists>new. polled (run (onload resp st) es) = polled st @ new \<and> job_id res \<notin> set new"
      using new(1) same(1) by auto
  qed
  show ?thesis using steps later by blast
qed

theorem onload_error_body_never_polls_witness:
  "emitted (onload (accepted (status_body (ascii ''j9'') (ascii ''error'') None (Some (ascii ''bad file''))))
              uploading)
     = [EmitError [], EmitError (ascii ''bad file'')]
   \<and> \<not> loading (onload (accepted (status_body (ascii ''j9'') (ascii ''error'') None
                                     (Some (ascii ''bad file'')))) uploading)
   \<and> (\<exists>new. polled (run (onload (accepted (status_body (ascii ''j9'') (ascii ''error'') None
                                      (Some (ascii ''bad file'')))) uploading)
               [Timer (ascii ''j9'') 1000, PollResult (ascii ''j9'') NotOk]) = new \<and> ascii ''j9'' \<notin> set new)
   \<and> loading uploading
   \<and> polled (onload (accepted (status_body (ascii ''j1'') (ascii ''queued'') (Some 0) None))
              uploading) = [ascii ''j1'']"
proof -
  let ?bad = "status_body (ascii ''j9'') (ascii ''error'') None (Some (ascii ''bad file''))"
  let ?ok = "status_body (ascii ''j1'') (ascii ''queued'') (Some 0) None"
  let ?es = "[Timer (ascii ''j9'') 1000, PollResult (ascii ''j9'') NotOk]"
  have h1: "200 \<le> http_status (accepted ?bad) \<and> http_status (accepted ?bad) < 300
      \<and> parsed (accepted ?bad) = Some ?bad \<and> status ?bad = ascii ''error''"
    by (simp add: accepted_def status_body_def)
  have h2: "currentJobId uploading \<noteq> Some (job_id ?bad) \<and> job_id ?bad \<notin> set (load_ids ?es)"
    by (simp add: uploading_state)
  have h3: "loading uploading \<and> 200 \<le> http_status (accepted ?ok)
      \<and> http_status (accepted ?ok) < 300
      \<and> parsed (accepted ?ok) = Some ?ok \<and> status ?ok \<noteq> ascii ''error''"
    by (simp add: accepted_def status_body_def uploading_state ascii_facts)
  have v: "or_else (message ?bad) msg_convert_failed = ascii ''bad file''"
      "emitted uploading = [EmitError []]" "polled uploading = []"
      "job_id ?bad = ascii ''j9''" "job_id ?ok = ascii ''j1''"
    by (simp_all add: status_body_def or_else_def ascii_def uploading_state)
  from onload_error_body_never_polls [of "accepted ?bad" ?bad uploading ?es] h1 h2
  have a: "emitted (onload (accepted ?bad) uploading)
        = emitted uploading @ [EmitError (or_else (message ?bad) msg_convert_failed)]"
      "\<not> loading (onload (accepted ?bad) uploading)"
      "\<exists>new. polled (run (onload (accepted ?bad) uploading) ?es) = polled uploading @ new
          \<and> job_id ?bad \<notin> set new"
    by blast+
  from onload_error_body_never_polls [of "accepted ?ok" ?ok uploading "[]"] h3
  have b: "polled (onload (accepted ?ok) uploading) = polled uploading @ [job_id ?ok]"
    by blast
  show ?thesis using a b h3 unfolding v by simp
qed

section \<open>Polling\<close>

text \<open>
  C1, as the code has it. After a parsed status body whose status is neither \<open>done\<close> nor
  \<open>error\<close> the next poll is set 1000 ms ahead and the component goes on loading; this
  includes the status \<open>cancelled\<close>, which the component does not know. After a transport
  error, a response that is not ok or a body that does not parse, the next poll is set
  2000 ms ahead as long as the component is loading, and nothing else changes. After a body
  with status \<open>done\<close> or \<open>error\<close> no poll is set and loading ends. A poll that fires once
  loading has ended, as it has after \<open>cancelUpload\<close>, does nothing; one that fires while
  the component is loading for its job issues \<open>GET /status/{jobId}\<close>.
\<close>

theorem poll_cadence_and_stop:
  "(status res \<noteq> ascii ''done'' \<and> status res \<noteq> ascii ''error'' \<longrightarrow>
      timers (poll_resume jobId (Body res) st) = timers st @ [(jobId, 1000)]
      \<and> loading (poll_resume jobId (Body res) st) = loading st)
   \<and> (out \<in> {FetchFailed, NotOk, JsonFailed} \<and> loading st \<longrightarrow>
      poll_resume jobId out st = st\<lparr>timers := timers st @ [(jobId, 2000)]\<rparr>)
   \<and> (status res = ascii ''done'' \<or> status res = ascii ''error'' \<longrightarrow>
      timers (poll_resume jobId (Body res) st) = timers st
      \<and> \<not> loading (poll_resume jobId (Body res) st))
   \<and> (\<not> loading st \<longrightarrow> poll jobId st = st)
   \<and> poll jobId (cancelUpload st) = cancelUpload st
   \<and> (loading st \<and> currentJobId st = Some jobId \<longrightarrow>
      polled (poll jobId st) = polled st @ [jobId]
      \<and> fetching (poll jobId st) = fetching st @ [jobId])"
  by (auto simp: handler_defs Let_def split: option.splits)

theorem poll_cadence_and_stop_witness:
  "timers (poll_resume (ascii ''j1'')
       (Body (status_body (ascii ''j1'') (ascii ''converting'') (Some 10) None)) polling)
     = [(ascii ''j1'', 1000)]
   \<and> timers (poll_resume (ascii ''j1'') NotOk polling) = [(ascii ''j1'', 2000)]
   \<and> polled (poll (ascii ''j1'') polling) = [ascii ''j1'', ascii ''j1'']
   \<and> timers (poll_resume (ascii ''j1'')
       (Body (status_body (ascii ''j1'') (ascii ''done'') (Some 100) None)) polling) = []
   \<and> \<not> loading (poll_resume (ascii ''j1'')
       (Body (status_body (ascii ''j1'') (ascii ''done'') (Some 100) None)) polling)
   \<and> \<not> loading (cancelUpload polling)
   \<and> polled (poll (ascii ''j1'') (cancelUpload polling)) = [ascii ''j1'']"
  using
    poll_cadence_and_stop
      [of "status_body (ascii ''j1'') (ascii ''converting'') (Some 10) None"
          "ascii ''j1''" polling NotOk]
    poll_cadence_and_stop
      [of "status_body (ascii ''j1'') (ascii ''done'') (Some 100) None"
          "ascii ''j1''" polling NotOk]
    poll_cadence_and_stop
      [of "status_body (ascii ''j1'') (ascii ''done'') (Some 100) None"
          "ascii ''j1''" "cancelUpload polling" NotOk]
  by (simp add: polling_state status_body_def handler_defs or_else_def ascii_facts Let_def)

text \<open>
  The status \<open>cancelled\<close> does not stop the polling: the component, polling job \<open>j1\<close>, sets
  the next poll 1000 ms ahead, goes on loading, and issues the next request when the timer
  fires.
\<close>

theorem poll_continues_on_cancelled_status:
  "loading polling \<and> currentJobId polling = Some (ascii ''j1'')
   \<and> polled polling = [ascii ''j1'']
   \<and> timers (step polling (PollResult (ascii ''j1'')
        (Body (status_body (ascii ''j1'') (ascii ''cancelled'') (Some 40) None))))
      = [(ascii ''j1'', 1000)]
   \<and> loading (step polling (PollResult (ascii ''j1'')
        (Body (status_body (ascii ''j1'') (ascii ''cancelled'') (Some 40) None))))
   \<and> polled (run polling [PollResult (ascii ''j1'')
        (Body (status_body (ascii ''j1'') (ascii ''cancelled'') (Some 40) None)),
        Timer (ascii ''j1'') 1000]) = [ascii ''j1'', ascii ''j1'']"
  by (simp add: polling_state status_body_def run_def handler_defs or_else_def ascii_facts
        Let_def)

text \<open>
  A poll that waits in a timer for a job id other than the one \<open>currentJobId\<close> holds
  (another job's id, or none after a cancellation) does nothing when it fires: the timer is
  gone and the state is otherwise the same.
\<close>

lemma scheduled_poll_is_inert:
  "(jobId, delay) \<in> set (timers st) \<Longrightarrow> currentJobId st \<noteq> Some jobId \<Longrightarrow>
     step st (Timer jobId delay) = st\<lparr>timers := remove1 (jobId, delay) (timers st)\<rparr>"
  by (simp add: poll_def)

text \<open>
  C9 asks that once \<open>currentJobId\<close> has been cleared by a cancellation or set to a new job,
  a pending poll of another job updates neither progress, message nor log and sets no
  further poll, so that one job's polls at a time change the state. The guard at the head
  of \<open>poll\<close> sees to this for a poll that waits in a timer, and the branches for a failed
  request look at \<open>loading\<close> again once the request is back; the branch for a parsed body
  looks at nothing again. So a poll of job \<open>j1\<close> whose request is under way when the user
  cancels still sets progress, message and log and sets the next poll when its body
  arrives. And when the user has submitted again and job \<open>j2\<close> is current, a body \<open>done\<close>
  for \<open>j1\<close> sets the progress to 100, ends loading and emits \<open>convert\<close> with the result of
  \<open>j1\<close>, after which no further status request is issued for \<open>j2\<close>.
\<close>

theorem stale_in_flight_poll_updates_state:
  "currentJobId (step polling Cancel) = None
   \<and> logs (step polling Cancel) = []
   \<and> progress (run polling [Cancel, PollResult (ascii ''j1'')
        (Body (status_body (ascii ''j1'') (ascii ''converting'') (Some 55)
                (Some (ascii ''step 2''))))]) = 55
   \<and> progressMsg (run polling [Cancel, PollResult (ascii ''j1'')
        (Body (status_body (ascii ''j1'') (ascii ''converting'') (Some 55)
                (Some (ascii ''step 2''))))]) = ascii ''step 2''
   \<and> logs (run polling [Cancel, PollResult (ascii ''j1'')
        (Body (status_body (ascii ''j1'') (ascii ''converting'') (Some 55)
                (Some (ascii ''step 2''))))]) = [ascii ''step 2'']
   \<and> timers (run polling [Cancel, PollResult (ascii ''j1'')
        (Body (status_body (ascii ''j1'') (ascii ''converting'') (Some 55)
                (Some (ascii ''step 2''))))]) = [(ascii ''j1'', 1000)]
   \<and> loading overtaken \<and> currentJobId overtaken = Some (ascii ''j2'')
   \<and> progress overtaken = 0
   \<and> progress (step overtaken (PollResult (ascii ''j1'')
        (Body (status_body (ascii ''j1'') (ascii ''done'') (Some 100) None)))) = 100
   \<and> \<not> loading (step overtaken (PollResult (ascii ''j1'')
        (Body (status_body (ascii ''j1'') (ascii ''done'') (Some 100) None))))
   \<and> last (emitted (step overtaken (PollResult (ascii ''j1'')
        (Body (status_body (ascii ''j1'') (ascii ''done'') (Some 100) None)))))
       = EmitConvert (status_body (ascii ''j1'') (ascii ''done'') (Some 100) None)
   \<and> polled (run overtaken
        [PollResult (ascii ''j1'')
           (Body (status_body (ascii ''j1'') (ascii ''done'') (Some 100) None)),
         PollResult (ascii ''j2'')
           (Body (status_body (ascii ''j2'') (ascii ''converting'') (Some 10) None)),
         Timer (ascii ''j2'') 1000]) = [ascii ''j1'', ascii ''j2'']"
proof -
  have a: "run polling [Cancel, PollResult (ascii ''j1'')
        (Body (status_body (ascii ''j1'') (ascii ''converting'') (Some 55)
                (Some (ascii ''step 2''))))]
     = \<lparr>loading = False, progress = 55, progressMsg = ascii ''step 2'',
     file = Some (ascii ''a.dwg''), showDetails = False, logs = [ascii ''step 2''],
     currentJobId = None, xhr = None, emitted = [EmitError [], EmitError msg_cancelled],
     uploads = [], aborted = [], next_req = 1, timers = [(ascii ''j1'', 1000)], fetching = [],
     polled = [ascii ''j1'']\<rparr>"
    unfolding run_def
    by (simp add: cancelled_state status_body_def poll_resume_def setTimeout_poll_def
          addLog_def or_else_def ascii_facts ascii_def Let_def)
  have b: "polled (run overtaken
        [PollResult (ascii ''j1'')
           (Body (status_body (ascii ''j1'') (ascii ''done'') (Some 100) None)),
         PollResult (ascii ''j2'')
           (Body (status_body (ascii ''j2'') (ascii ''converting'') (Some 10) None)),
         Timer (ascii ''j2'') 1000]) = [ascii ''j1'', ascii ''j2'']"
    by (simp only: run_def foldl.simps overtaken_done_state)
       (simp add: status_body_def poll_resume_def setTimeout_poll_def
          poll_def addLog_def or_else_def ascii_facts Let_def)
  show ?thesis
    unfolding a b overtaken_done_state
    by (simp add: cancelled_state overtaken_state)
qed

section \<open>Cancelling\<close>



section \<open>The progress displayed\<close>

text \<open>
  C7, as the code has it. During the polling phase the component displays, after each
  status body it handles, exactly the progress of that body (0 for a body without one), and
  leaves the display as it is at every other event of the phase; it does not clamp. So when
  the progress values of the bodies that arrive are non-decreasing, from the value
  displayed when polling starts, the values displayed after each event are non-decreasing
  as well, and a body that reports less than is displayed lowers the display. The upload
  phase is apart: every progress event of the upload whose length is computable displays
  its percentage, and the response that starts the polling sets the display back to 0.
\<close>

theorem displayed_progress_follows_reports:
  "(jobId \<in> set (fetching st) \<longrightarrow>
      progress (step st (PollResult jobId (Body res)))
        = (case res_progress res of None \<Rightarrow> 0 | Some p \<Rightarrow> p))
   \<and> (is_poll_event e \<and> \<not> (\<exists>j r. e = PollResult j (Body r) \<and> j \<in> set (fetching st)) \<longrightarrow>
      progress (step st e) = progress st)
   \<and> (list_all is_poll_event es \<and> sorted (progress st # reported es) \<longrightarrow>
      sorted (progress st # displayed st es))
   \<and> (x \<in> set (uploads st) \<longrightarrow>
      progress (step st (UploadProgress x True percent)) = real percent)
   \<and> (x \<in> set (uploads st) \<and> 200 \<le> http_status resp \<and> http_status resp < 300
        \<and> parsed resp = Some accepted_body \<and> status accepted_body \<noteq> ascii ''error'' \<longrightarrow>
      progress (step st (UploadLoad x resp)) = 0)"
  using progress_body [of jobId st res] progress_other_poll_event [of e st]
    sorted_displayed [of es st] progress_upload(1) [of x st percent]
    progress_upload(2) [of x st resp accepted_body]
  by blast

theorem displayed_progress_follows_reports_witness:
  "ascii ''j1'' \<in> set (fetching polling)
   \<and> progress polling = 0
   \<and> progress (step polling (PollResult (ascii ''j1'')
        (Body (status_body (ascii ''j1'') (ascii ''converting'') (Some 10) None)))) = 10
   \<and> progress (step polling (Timer (ascii ''j1'') 1000)) = 0
   \<and> sorted (progress polling # displayed polling
     [PollResult (ascii ''j1'')
        (Body (status_body (ascii ''j1'') (ascii ''converting'') (Some 10) None)),
      Timer (ascii ''j1'') 1000,
      PollResult (ascii ''j1'')
        (Body (status_body (ascii ''j1'') (ascii ''packaging'') (Some 40) None))])
   \<and> 0 \<in> set (uploads uploading)
   \<and> progress (step uploading (UploadProgress 0 True 100)) = 100
   \<and> progress (step uploading (UploadLoad 0
        (accepted (status_body (ascii ''j1'') (ascii ''queued'') (Some 30) None)))) = 0"
proof -
  let ?b10 = "status_body (ascii ''j1'') (ascii ''converting'') (Some 10) None"
  let ?b40 = "status_body (ascii ''j1'') (ascii ''packaging'') (Some 40) None"
  let ?q = "status_body (ascii ''j1'') (ascii ''queued'') (Some 30) None"
  let ?es = "[PollResult (ascii ''j1'') (Body ?b10), Timer (ascii ''j1'') 1000,
      PollResult (ascii ''j1'') (Body ?b40)]"
  have h1: "ascii ''j1'' \<in> set (fetching polling)" "progress polling = 0"
    by (simp_all add: polling_state)
  have h2: "is_poll_event (Timer (ascii ''j1'') 1000)
      \<and> \<not> (\<exists>j r. Timer (ascii ''j1'') 1000 = PollResult j (Body r) \<and> j \<in> set (fetching polling))"
    by simp
  have h3: "list_all is_poll_event ?es \<and> sorted (progress polling # reported ?es)"
    by (simp add: polling_state status_body_def)
  have h4: "0 \<in> set (uploads uploading)" by (simp add: uploading_state)
  have h5: "200 \<le> http_status (accepted ?q) \<and> http_status (accepted ?q) < 300
      \<and> parsed (accepted ?q) = Some ?q \<and> status ?q \<noteq> ascii ''error''"
    by (simp add: accepted_def status_body_def ascii_facts)
  have v: "(case res_progress ?b10 of None \<Rightarrow> 0 | Some p \<Rightarrow> p) = (10::real)"
    by (simp add: status_body_def)
  from displayed_progress_follows_reports
         [of "ascii ''j1''" polling ?b10 "Timer (ascii ''j1'') 1000" ?es] h1 h2 h3
  have a: "progress (step polling (PollResult (ascii ''j1'') (Body ?b10)))
        = (case res_progress ?b10 of None \<Rightarrow> 0 | Some p \<Rightarrow> p)"
      "progress (step polling (Timer (ascii ''j1'') 1000)) = progress polling"
      "sorted (progress polling # displayed polling ?es)"
    by blast+
  from displayed_progress_follows_reports
         [of _ uploading _ _ _ 0 100 "accepted ?q" ?q] h4 h5
  have b: "progress (step uploading (UploadProgress 0 True 100)) = real 100"
      "progress (step uploading (UploadLoad 0 (accepted ?q))) = 0"
    by blast+
  show ?thesis using a b h1 h4 unfolding v by simp
qed

text \<open>
  The displayed progress does go down while no terminal status has been seen. From the
  start of an upload: it is 100 when the upload has been sent in full and 0 once the
  response to the upload has been handled. During polling: a body that reports 10 after one
  that reported 40 is displayed as 10. The component is loading throughout.
\<close>

theorem displayed_progress_drops_after_upload:
  "displayed init [FileChange (Some (ascii ''a.dwg'')), Submit None,
      UploadProgress 0 True 100,
      UploadLoad 0 (accepted (status_body (ascii ''j1'') (ascii ''queued'') (Some 0) None))]
    = [0, 0, 100, 0]
   \<and> \<not> sorted (displayed init [FileChange (Some (ascii ''a.dwg'')), Submit None,
      UploadProgress 0 True 100,
      UploadLoad 0 (accepted (status_body (ascii ''j1'') (ascii ''queued'') (Some 0) None))])
   \<and> loading (run init [FileChange (Some (ascii ''a.dwg'')), Submit None,
      UploadProgress 0 True 100,
      UploadLoad 0 (accepted (status_body (ascii ''j1'') (ascii ''queued'') (Some 0) None))])
   \<and> displayed polling
     [PollResult (ascii ''j1'')
        (Body (status_body (ascii ''j1'') (ascii ''converting'') (Some 40) None)),
      Timer (ascii ''j1'') 1000,
      PollResult (ascii ''j1'')
        (Body (status_body (ascii ''j1'') (ascii ''converting'') (Some 10) None))]
     = [40, 40, 10]
   \<and> loading (run polling
     [PollResult (ascii ''j1'')
        (Body (status_body (ascii ''j1'') (ascii ''converting'') (Some 40) None)),
      Timer (ascii ''j1'') 1000,
      PollResult (ascii ''j1'')
        (Body (status_body (ascii ''j1'') (ascii ''converting'') (Some 10) None))])"
proof -
  have a: "displayed init [FileChange (Some (ascii ''a.dwg'')), Submit None,
      UploadProgress 0 True 100,
      UploadLoad 0 (accepted (status_body (ascii ''j1'') (ascii ''queued'') (Some 0) None))]
    = [0, 0, 100, 0]
   \<and> loading (run init [FileChange (Some (ascii ''a.dwg'')), Submit None,
      UploadProgress 0 True 100,
      UploadLoad 0 (accepted (status_body (ascii ''j1'') (ascii ''queued'') (Some 0) None))])"
    by (simp add: init_def accepted_def status_body_def run_def handler_defs msg_facts
          ascii_facts Let_def)
  have b: "displayed polling
     [PollResult (ascii ''j1'')
        (Body (status_body (ascii ''j1'') (ascii ''converting'') (Some 40) None)),
      Timer (ascii ''j1'') 1000,
      PollResult (ascii ''j1'')
        (Body (status_body (ascii ''j1'') (ascii ''converting'') (Some 10) None))]
     = [40, 40, 10]
   \<and> loading (run polling
     [PollResult (ascii ''j1'')
        (Body (status_body (ascii ''j1'') (ascii ''converting'') (Some 40) None)),
      Timer (ascii ''j1'') 1000,
      PollResult (ascii ''j1'')
        (Body (status_body (ascii ''j1'') (ascii ''converting'') (Some 10) None))])"
    by (simp add: polling_state status_body_def run_def handler_defs or_else_def ascii_facts
          Let_def)
  show ?thesis using a b by simp
qed

section \<open>Facts about the map component\<close>

text \<open>Redrawing the layers and setting their filters neither fits the view nor touches the layer list.\<close>

lemma fitted_updateMapFilters [simp]:
  "map_option fitted (mapv (updateMapFilters st)) = map_option fitted (mapv st)"
  by (simp add: updateMapFilters_def setFilter_def Let_def split: option.splits)

lemma fitted_removeLayers:
  "fitted (foldl (\<lambda>m i. if getLayer i m then removeLayer i m else m) m is) = fitted m"
  by (induction "is" arbitrary: m) (simp_all add: removeLayer_def)

lemma fitted_renderMapLayers [simp]:
  "map_option fitted (mapv (renderMapLayers st)) = map_option fitted (mapv st)"
  by (simp add: renderMapLayers_def addLayer_def Let_def fitted_removeLayers
        del: foldl_Cons foldl_Nil map_option_eq_Some split: option.splits)

lemma mapv_fetch_layers [simp]: "mapv (fetch_layers resp st) = mapv st"
  by (simp add: fetch_layers_def store_layers_def Let_def
        split: layers_response.splits option.splits)

lemma fit_calls_fit_result:
  assumes "map_option fitted (mapv st) = Some f" and "bbox nv = Some b"
  shows "fit_calls (fit_result nv st) = (if valid_bounds b then f @ [b] else f)"
  using assms by (auto simp: fit_result_def fit_calls_def fitBounds_def)

lemma valid_bounds_iff:
  "valid_bounds [minX, minY, maxX, maxY] =
    (\<exists>x1 y1 x2 y2. minX = Num x1 \<and> minY = Num y1 \<and> maxX = Num x2 \<and> maxY = Num y2
       \<and> \<bar>x1\<bar> < 10 ^ 20 \<and> \<bar>y1\<bar> < 10 ^ 20 \<and> \<bar>x2\<bar> < 10 ^ 20 \<and> \<bar>y2\<bar> < 10 ^ 20
       \<and> - 90 \<le> y1 \<and> y1 \<le> 90 \<and> - 90 \<le> y2 \<and> y2 \<le> 90)"
  by (auto simp: valid_bounds_def item_def isValid_def isValidLat_def Let_def
        split: jsnum.splits)

lemma selected_updateMapFilters [simp]:
  "selectedLayers (updateMapFilters st) = selectedLayers st"
  "layers (updateMapFilters st) = layers st"
  by (simp_all add: updateMapFilters_def Let_def split: option.splits)

lemma selected_renderMapLayers [simp]:
  "selectedLayers (renderMapLayers st) = selectedLayers st"
  "layers (renderMapLayers st) = layers st"
  by (simp_all add: renderMapLayers_def Let_def del: foldl_Cons foldl_Nil split: option.splits)

lemma selected_fit_result [simp]:
  "selectedLayers (fit_result nv st) = selectedLayers st"
  "layers (fit_result nv st) = layers st"
  by (simp_all add: fit_result_def split: option.splits)

lemma set_foldl_set_add: "set (foldl (\<lambda>s x. set_add x s) acc xs) = set acc \<union> set xs"
  by (induction xs arbitrary: acc) (auto simp: set_add_def)

lemma set_new_Set: "set (new_Set xs) = set xs"
  by (simp add: new_Set_def set_foldl_set_add)

lemma distinct_foldl_set_add:
  "distinct acc \<Longrightarrow> distinct (foldl (\<lambda>s x. set_add x s) acc xs)"
  by (induction xs arbitrary: acc) (auto simp: set_add_def)

lemma distinct_new_Set: "distinct (new_Set xs)"
  by (simp add: new_Set_def distinct_foldl_set_add)

lemma is_string_JString [simp]: "is_string (JString s)"
  by (simp add: is_string_def)

lemma names_of_default:
  "names_of (map (\<lambda>n. descriptor n c) ns) = Some (map JString ns)"
  by (induction ns) (simp_all add: prop_name_def descriptor_def ascii_def)

lemma names_of_descriptors:
  "list_all is_descriptor data \<Longrightarrow> \<exists>ns. names_of data = Some ns \<and> list_all is_string ns"
proof (induction data)
  case Nil
  show ?case by simp
next
  case (Cons l ls)
  then obtain ns where "names_of ls = Some ns" "list_all is_string ns" by auto
  moreover have "\<exists>n. prop_name l = Some (JString n)"
    using Cons.prems
    by (auto simp: is_descriptor_def prop_name_def split: jsval.splits option.splits)
  ultimately show ?case by auto
qed

lemma is_descriptor_descriptor: "is_descriptor (descriptor n c)"
  by (simp add: is_descriptor_def descriptor_def ascii_def)

lemma watch_layers:
  assumes "mapv st \<noteq> None" and "job_id nv \<noteq> []"
  shows "layers (watch_result (Some nv) (LayersBody data) st) = layers (store_layers data st)"
    and "selectedLayers (watch_result (Some nv) (LayersBody data) st)
           = selectedLayers (store_layers data st)"
  using assms by (auto simp: watch_result_def watch_resume_def fetch_layers_def)

section \<open>Fitting the view\<close>

text \<open>
  C2. Let the map be there and the bounds be \<open>[minX, minY, maxX, maxY]\<close>. \<open>resetView\<close>, for
  the bounds of \<open>props.result\<close>, and the watcher, for the bounds of the new result and
  whatever the layer request came back with, call \<open>fitBounds\<close> with these bounds exactly
  when all four are finite numbers of absolute value below \<open>1e20\<close> and \<open>minY\<close> and \<open>maxY\<close>
  lie in \<open>[-90, 90]\<close>; otherwise they make no call. So \<open>[1e21, 0, 1, 1]\<close> is not fitted and
  \<open>[-10, -5, 10, 5]\<close> is.
\<close>

theorem fitBounds_iff_valid_bounds:
  assumes "mapv st \<noteq> None" and "bbox res = Some [minX, minY, maxX, maxY]"
  shows "(result st = Some res \<longrightarrow>
           fit_calls (resetView st) =
             (if \<exists>x1 y1 x2 y2. minX = Num x1 \<and> minY = Num y1 \<and> maxX = Num x2 \<and> maxY = Num y2
                   \<and> \<bar>x1\<bar> < 10 ^ 20 \<and> \<bar>y1\<bar> < 10 ^ 20 \<and> \<bar>x2\<bar> < 10 ^ 20 \<and> \<bar>y2\<bar> < 10 ^ 20
                   \<and> - 90 \<le> y1 \<and> y1 \<le> 90 \<and> - 90 \<le> y2 \<and> y2 \<le> 90
              then fit_calls st @ [[minX, minY, maxX, maxY]] else fit_calls st))
       \<and> fit_calls (watch_result (Some res) resp st) =
             (if \<exists>x1 y1 x2 y2. minX = Num x1 \<and> minY = Num y1 \<and> maxX = Num x2 \<and> maxY = Num y2
                   \<and> \<bar>x1\<bar> < 10 ^ 20 \<and> \<bar>y1\<bar> < 10 ^ 20 \<and> \<bar>x2\<bar> < 10 ^ 20 \<and> \<bar>y2\<bar> < 10 ^ 20
                   \<and> - 90 \<le> y1 \<and> y1 \<le> 90 \<and> - 90 \<le> y2 \<and> y2 \<le> 90
              then fit_calls st @ [[minX, minY, maxX, maxY]] else fit_calls st)"
proof -
  obtain m where m: "mapv st = Some m" using assms(1) by blast
  have r: "result st = Some res \<longrightarrow>
      fit_calls (resetView st) =
        (if valid_bounds [minX, minY, maxX, maxY]
         then fit_calls st @ [[minX, minY, maxX, maxY]] else fit_calls st)"
    using m assms(2) by (simp add: resetView_def fit_calls_def fitBounds_def)
  have f: "fit_calls st = fitted m" using m by (simp add: fit_calls_def)
  have "map_option fitted (mapv (renderMapLayers (fetch_layers resp st))) = Some (fitted m)"
    and "map_option fitted (mapv (renderMapLayers st)) = Some (fitted m)"
    using m by simp_all
  then have w: "fit_calls (watch_result (Some res) resp st) =
        (if valid_bounds [minX, minY, maxX, maxY]
         then fit_calls st @ [[minX, minY, maxX, maxY]] else fit_calls st)"
    using m assms(2) f
    by (simp add: watch_result_def watch_resume_def fit_calls_fit_result)
  show ?thesis using r w unfolding valid_bounds_iff by blast
qed

theorem fitBounds_iff_valid_bounds_witness:
  "mapv (mounted [Num (10 ^ 21), Num 0, Num 1, Num 1]) \<noteq> None
   \<and> fit_calls (resetView (mounted [Num (10 ^ 21), Num 0, Num 1, Num 1])) = []
   \<and> fit_calls (watch_result (result (mounted [Num (10 ^ 21), Num 0, Num 1, Num 1]))
        LayersNotOk (mounted [Num (10 ^ 21), Num 0, Num 1, Num 1])) = []
   \<and> fit_calls (resetView (mounted [Num (- 10), Num (- 5), Num 10, Num 5]))
       = [[Num (- 10), Num (- 5), Num 10, Num 5]]
   \<and> fit_calls (watch_result (result (mounted [Num (- 10), Num (- 5), Num 10, Num 5]))
        LayersNotOk (mounted [Num (- 10), Num (- 5), Num 10, Num 5]))
       = [[Num (- 10), Num (- 5), Num 10, Num 5]]"
proof -
  let ?r = "status_body (ascii ''j1'') (ascii ''done'') (Some 100) None"
  let ?bad = "[Num (10 ^ 21), Num 0, Num 1, Num 1]"
  let ?good = "[Num (- 10), Num (- 5), Num 10, Num 5]"
  have m: "mapv (mounted b) \<noteq> None" "fit_calls (mounted b) = []"
      "result (mounted b) = Some (?r\<lparr>bbox := Some b\<rparr>)" for b
    by (simp_all add: mounted_def fit_calls_def)
  have b: "bbox (?r\<lparr>bbox := Some b\<rparr>) = Some b" for b by simp
  show ?thesis
    using fitBounds_iff_valid_bounds [OF m(1) b, of ?bad "Num (10 ^ 21)" "Num 0" "Num 1" "Num 1"
            LayersNotOk]
          fitBounds_iff_valid_bounds [OF m(1) b, of ?good "Num (- 10)" "Num (- 5)" "Num 10" "Num 5"
            LayersNotOk]
    by (simp add: m)
qed

section \<open>The layer list\<close>

text \<open>
  C6. Let the map be there and the new result have a job id, so that the watcher asks for
  the layers. A body that is a non-empty array of name strings is stored as the descriptors
  \<open>{name, color}\<close> of these names with the color \<open>#9ca3af\<close>, and the names are the selected
  layers. A body that is an array of descriptor objects is stored as it is. In both shapes
  the stored list consists of descriptor objects, and the selected layers are, as a \<open>Set\<close>,
  the names (strings) of the stored list.
\<close>

theorem layers_response_normalized:
  assumes "mapv st \<noteq> None" and "job_id nv \<noteq> []"
  shows
    "(names \<noteq> [] \<longrightarrow>
        layers (watch_result (Some nv) (LayersBody (map JString names)) st)
          = map (\<lambda>n. descriptor n default_color) names
        \<and> set (selectedLayers (watch_result (Some nv) (LayersBody (map JString names)) st))
          = JString ` set names)
     \<and> (list_all is_descriptor data \<longrightarrow>
        layers (watch_result (Some nv) (LayersBody data) st) = data)
     \<and> ((\<exists>ns. data = map JString ns) \<or> list_all is_descriptor data \<longrightarrow>
        list_all is_descriptor (layers (watch_result (Some nv) (LayersBody data) st))
        \<and> (\<exists>ns. names_of (layers (watch_result (Some nv) (LayersBody data) st)) = Some ns
               \<and> list_all is_string ns
               \<and> set (selectedLayers (watch_result (Some nv) (LayersBody data) st)) = set ns)
        \<and> distinct (selectedLayers (watch_result (Some nv) (LayersBody data) st)))"
proof -
  let ?mk = "\<lambda>l. JObject [(ascii ''name'', l), (ascii ''color'', JString default_color)]"
  have strs: "layers (store_layers (map JString ns) st) = map (\<lambda>n. descriptor n default_color) ns
      \<and> selectedLayers (store_layers (map JString ns) st) = new_Set (map JString ns)" for ns
  proof (cases "ns = []")
    case True
    then show ?thesis by (simp add: store_layers_def new_Set_def)
  next
    case False
    have "?mk \<circ> JString = (\<lambda>n. descriptor n default_color)"
      by (simp add: fun_eq_iff descriptor_def)
    then show ?thesis
      using names_of_default [of default_color ns] False
      by (simp add: store_layers_def Let_def hd_map)
  qed
  have descs: "layers (store_layers data st) = data
      \<and> (\<exists>ns. names_of data = Some ns \<and> list_all is_string ns
             \<and> selectedLayers (store_layers data st) = new_Set ns)"
    if d: "list_all is_descriptor data"
  proof -
    obtain ns where ns: "names_of data = Some ns" "list_all is_string ns"
      using names_of_descriptors [OF d] by blast
    have "\<not> (data \<noteq> [] \<and> is_string (hd data))"
      using d by (cases data) (auto simp: is_descriptor_def is_string_def split: jsval.splits)
    then show ?thesis using ns by (auto simp: store_layers_def Let_def)
  qed
  have a: "names \<noteq> [] \<longrightarrow>
        layers (watch_result (Some nv) (LayersBody (map JString names)) st)
          = map (\<lambda>n. descriptor n default_color) names
        \<and> set (selectedLayers (watch_result (Some nv) (LayersBody (map JString names)) st))
          = JString ` set names"
    using strs [of names] by (simp add: watch_layers [OF assms] set_new_Set)
  have b: "list_all is_descriptor data \<longrightarrow>
        layers (watch_result (Some nv) (LayersBody data) st) = data"
    using descs by (simp add: watch_layers [OF assms])
  have c: "list_all is_descriptor (layers (watch_result (Some nv) (LayersBody data) st))
        \<and> (\<exists>ns. names_of (layers (watch_result (Some nv) (LayersBody data) st)) = Some ns
               \<and> list_all is_string ns
               \<and> set (selectedLayers (watch_result (Some nv) (LayersBody data) st)) = set ns)
        \<and> distinct (selectedLayers (watch_result (Some nv) (LayersBody data) st))"
    if "(\<exists>ns. data = map JString ns) \<or> list_all is_descriptor data"
    using that
  proof
    assume "\<exists>ns. data = map JString ns"
    then obtain ns where data: "data = map JString ns" by blast
    have 1: "list_all is_descriptor (map (\<lambda>n. descriptor n default_color) ns)"
      by (simp add: list_all_iff is_descriptor_descriptor)
    have ms: "names_of (map (\<lambda>n. descriptor n default_color) ns) = Some (map JString ns)"
        "list_all is_string (map JString ns)"
      by (simp_all add: names_of_default list_all_iff)
    show ?thesis
      using strs [of ns] 1 ms
      by (simp add: data watch_layers [OF assms] set_new_Set distinct_new_Set)
  next
    assume d: "list_all is_descriptor data"
    from descs [OF d] show ?thesis
      using d by (auto simp: watch_layers [OF assms] set_new_Set distinct_new_Set)
  qed
  show ?thesis using a b c by blast
qed

theorem layers_response_normalized_witness:
  "mapv (mounted []) \<noteq> None
   \<and> job_id (status_body (ascii ''j1'') (ascii ''done'') (Some 100) None) \<noteq> []
   \<and> layers (watch_result (Some (status_body (ascii ''j1'') (ascii ''done'') (Some 100) None))
        (LayersBody [JString (ascii ''walls''), JString (ascii ''doors'')]) (mounted []))
       = [descriptor (ascii ''walls'') (ascii ''#9ca3af''),
          descriptor (ascii ''doors'') (ascii ''#9ca3af'')]
   \<and> set (selectedLayers
        (watch_result (Some (status_body (ascii ''j1'') (ascii ''done'') (Some 100) None))
          (LayersBody [JString (ascii ''walls''), JString (ascii ''doors'')]) (mounted [])))
       = {JString (ascii ''walls''), JString (ascii ''doors'')}
   \<and> list_all is_descriptor [descriptor (ascii ''walls'') (ascii ''#ff0000'')]
   \<and> layers (watch_result (Some (status_body (ascii ''j1'') (ascii ''done'') (Some 100) None))
        (LayersBody [descriptor (ascii ''walls'') (ascii ''#ff0000'')]) (mounted []))
       = [descriptor (ascii ''walls'') (ascii ''#ff0000'')]
   \<and> distinct (selectedLayers
        (watch_result (Some (status_body (ascii ''j1'') (ascii ''done'') (Some 100) None))
          (LayersBody [descriptor (ascii ''walls'') (ascii ''#ff0000'')]) (mounted [])))"
proof -
  let ?nv = "status_body (ascii ''j1'') (ascii ''done'') (Some 100) None"
  have m: "mapv (mounted []) \<noteq> None" by (simp add: mounted_def)
  have j: "job_id ?nv \<noteq> []" by (simp add: status_body_def ascii_def)
  have d: "list_all is_descriptor [descriptor (ascii ''walls'') (ascii ''#ff0000'')]"
    by (simp add: is_descriptor_descriptor)
  show ?thesis
    using layers_response_normalized [OF m j, of "[ascii ''walls'', ascii ''doors'']"
            "[descriptor (ascii ''walls'') (ascii ''#ff0000'')]"] m j d
    by (simp add: default_color_def insert_commute)
qed

section \<open>Selecting layers\<close>

text \<open>
  C10. Calling \<open>toggleLayer\<close> twice with the same name gives back the selected layers as a
  set (the order in which the \<open>Set\<close> lists them may differ). One call changes whether that
  name is selected, changes this for no other name, and leaves the layer list alone.
\<close>

theorem toggleLayer_involution:
  "set (selectedLayers (toggleLayer n (toggleLayer n st))) = set (selectedLayers st)
   \<and> (n \<in> set (selectedLayers (toggleLayer n st)) \<longleftrightarrow> n \<notin> set (selectedLayers st))
   \<and> (\<forall>m. m \<noteq> n \<longrightarrow>
        (m \<in> set (selectedLayers (toggleLayer n st)) \<longleftrightarrow> m \<in> set (selectedLayers st)))
   \<and> layers (toggleLayer n st) = layers st"
  by (auto simp: toggleLayer_def set_add_def set_delete_def)

theorem toggleLayer_involution_witness:
  "JString (ascii ''doors'') \<noteq> JString (ascii ''walls'')
   \<and> set (selectedLayers (toggleLayer (JString (ascii ''walls''))
        (toggleLayer (JString (ascii ''walls''))
          ((mounted [])\<lparr>selectedLayers := [JString (ascii ''walls''), JString (ascii ''doors'')]\<rparr>))))
       = {JString (ascii ''walls''), JString (ascii ''doors'')}
   \<and> JString (ascii ''walls'') \<notin> set (selectedLayers (toggleLayer (JString (ascii ''walls''))
          ((mounted [])\<lparr>selectedLayers := [JString (ascii ''walls''), JString (ascii ''doors'')]\<rparr>)))
   \<and> JString (ascii ''doors'') \<in> set (selectedLayers (toggleLayer (JString (ascii ''walls''))
          ((mounted [])\<lparr>selectedLayers := [JString (ascii ''walls''), JString (ascii ''doors'')]\<rparr>)))"
  using toggleLayer_involution [of "JString (ascii ''walls'')"
      "(mounted [])\<lparr>selectedLayers := [JString (ascii ''walls''), JString (ascii ''doors'')]\<rparr>"]
  by (simp add: ascii_def)

end
